theory Spec2Isabelle
  imports Complex_Main "HOL-Library.Word" "HOL-Library.Multiset"
begin

section \<open>DensePolygonClassStatistics: the application\<close>

text \<open>
  The application of \<^verbatim>\<open>app/otbDensePolygonClassStatistics.cxx\<close>. Its two methods
  \<^verbatim>\<open>DoUpdateParameters\<close> and \<^verbatim>\<open>DoExecute\<close> are embedded as functions of the parameters
  of the application and of the library they call. They return the list of external actions
  they performed, in order, and their result or the error that ended them. A fatal log entry
  (\<^verbatim>\<open>otbAppLogFATAL\<close>) ends the method with an exception; an access the C++ leaves
  undefined (a null feature, an index past the end of a vector) is an error value of its own.
\<close>

subsection \<open>Label values and population maps\<close>

text \<open>\<^verbatim>\<open>LabelImageType\<close> is \<^verbatim>\<open>UInt32ImageType\<close>: a label is an unsigned 32-bit integer.\<close>

type_synonym LabelValueType = "32 word"

text \<open>
  \<^verbatim>\<open>StatsFilterType::LabelPopulationMapType\<close>: a \<^verbatim>\<open>std::map\<close> from label to pixel count;
  a count is a natural number.
\<close>

type_synonym LabelPopulationMapType = "LabelValueType \<rightharpoonup> nat"

text \<open>\<^verbatim>\<open>itk::NumericTraits<LabelImageType::ValueType>::max()\<close>, the internal no-data value.\<close>

definition intNoData :: LabelValueType where
  "intNoData = 4294967295"

text \<open>\<^verbatim>\<open>std::map::erase(key)\<close>: removes the entry of the key, if there is one.\<close>

definition erase :: "LabelPopulationMapType \<Rightarrow> LabelValueType \<Rightarrow> LabelPopulationMapType" where
  "erase m k = m(k := None)"

subsection \<open>Errors and external actions\<close>

text \<open>
  Modelled from the spec: \<^verbatim>\<open>otbAppLogFATAL\<close> is a macro of the OTB library; a fatal error
  is a single terminating error with a descriptive message, so the macro ends the method with
  its message. \<open>UndefinedBehaviour\<close> stands for an access the C++ standard leaves undefined,
  with the expression that makes it.
\<close>

datatype error =
    Fatal string
  | UndefinedBehaviour string

text \<open>The calls by which the two methods reach outside the application, in source order.\<close>

datatype action =
    OpenVectorDataSource string
  | SetupDEMHandler
  | GetParameterImage string
  | GetParameterVectorData string
  | UpdateReprojection
  | UpdateStatistics string
  | UpdateStatisticsWriter string

subsection \<open>Characters and strings\<close>

text \<open>
  \<^verbatim>\<open>std::isalnum\<close> and \<^verbatim>\<open>tolower\<close> in the C locale: the ASCII digits and letters are
  alphanumeric, and only the upper-case ASCII letters change.
\<close>

definition isalnum :: "char \<Rightarrow> bool" where
  "isalnum c =
     (let n = (of_char c :: nat)
      in (48 \<le> n \<and> n \<le> 57) \<or> (65 \<le> n \<and> n \<le> 90) \<or> (97 \<le> n \<and> n \<le> 122))"

definition tolower :: "char \<Rightarrow> char" where
  "tolower c =
     (let n = (of_char c :: nat)
      in if 65 \<le> n \<and> n \<le> 90 then char_of (n + 32) else c)"

text \<open>Utility function to negate \<^verbatim>\<open>std::isalnum\<close>.\<close>

definition IsNotAlphaNum :: "char \<Rightarrow> bool" where
  "IsNotAlphaNum c = (\<not> isalnum c)"

text \<open>
  \<^verbatim>\<open>std::remove_if(begin, end, p)\<close> moves the characters that do not satisfy \<open>p\<close> to the
  front, in order, and returns the end of that prefix; the string keeps its length, and what
  stands behind the prefix is left over from the original. The result is the string and the
  position of the returned iterator.
\<close>

definition remove_if :: "(char \<Rightarrow> bool) \<Rightarrow> string \<Rightarrow> string \<times> nat" where
  "remove_if p s =
     (let kept = filter (\<lambda>c. \<not> p c) s
      in (kept @ drop (length kept) s, length kept))"

text \<open>\<^verbatim>\<open>std::transform(begin, end, begin, f)\<close> on the first \<open>e\<close> characters of a string.\<close>

definition transform :: "nat \<Rightarrow> (char \<Rightarrow> char) \<Rightarrow> string \<Rightarrow> string" where
  "transform e f s = map f (take e s) @ drop e s"

text \<open>\<^verbatim>\<open>std::string::substr(pos, n)\<close>, for a position inside the string.\<close>

definition substr :: "string \<Rightarrow> nat \<Rightarrow> nat \<Rightarrow> string" where
  "substr s pos n = take n (drop pos s)"

text \<open>
  The two functions of \<^verbatim>\<open>itksys::SystemTools\<close> the application calls. They are not part
  of the sources, so the application takes them as given.
\<close>

record SystemTools =
  GetFilenameLastExtension :: "string \<Rightarrow> string"
  LowerCase :: "string \<Rightarrow> string"

text \<open>
  Modelled from the spec: the name of a file, the part of its path behind the last
  \<^verbatim>\<open>/\<close>. The spec only speaks of the extension of the output path.
\<close>

definition file_name :: "string \<Rightarrow> string" where
  "file_name path = rev (takeWhile (\<lambda>c. c \<noteq> CHR ''/'') (rev path))"

text \<open>
  Modelled from the spec: the last extension of a path, the suffix of its file name that
  starts at the last dot, or the empty string when the name has no dot.
\<close>

definition last_extension :: "string \<Rightarrow> string" where
  "last_extension path =
     (let name = file_name path
      in if CHR ''.'' \<in> set name
         then CHR ''.'' # rev (takeWhile (\<lambda>c. c \<noteq> CHR ''.'') (rev name))
         else [])"

text \<open>
  Modelled from the spec: the extension is compared case-insensitively, every character is
  lowered.
\<close>

definition lower_case :: "string \<Rightarrow> string" where
  "lower_case s = map tolower s"

text \<open>Modelled from the spec: \<^verbatim>\<open>itksys::SystemTools\<close> with these two functions.\<close>

definition itksys :: SystemTools where
  "itksys = \<lparr>GetFilenameLastExtension = last_extension, LowerCase = lower_case\<rparr>"

subsection \<open>DoUpdateParameters\<close>

text \<open>
  Modelled from the spec: the enumeration \<^verbatim>\<open>OGRFieldType\<close> belongs to GDAL and is not part
  of the sources. The attribute table exposes integer, 64-bit integer and string fields,
  which the application names \<^verbatim>\<open>OFTInteger\<close>, \<^verbatim>\<open>OFTInteger64\<close> and \<^verbatim>\<open>OFTString\<close>; the
  other constructors are the field types it does not accept.
\<close>

datatype OGRFieldType =
    OFTInteger | OFTIntegerList | OFTReal | OFTRealList | OFTString | OFTStringList
  | OFTWideString | OFTWideStringList | OFTBinary | OFTDate | OFTTime | OFTDateTime
  | OFTInteger64 | OFTInteger64List

text \<open>
  A field definition as the loop reads it (\<^verbatim>\<open>GetNameRef\<close>, \<^verbatim>\<open>GetType\<close>); a feature is the
  list of its field definitions in index order, a layer the list of its features in reading
  order, a data source the list of its layers.
\<close>

record OGRFieldDefn =
  GetNameRef :: string
  GetType :: OGRFieldType

type_synonym OGRFeature = "OGRFieldDefn list"
type_synonym OGRLayer = "OGRFeature list"
type_synonym OGRDataSource = "OGRLayer list"

text \<open>
  The parameters \<^verbatim>\<open>DoUpdateParameters\<close> reads and writes: the values of \<^verbatim>\<open>vec\<close> and
  \<^verbatim>\<open>out\<close> (\<open>None\<close> when \<^verbatim>\<open>HasValue\<close> is false) and the choices of the list view
  \<^verbatim>\<open>field\<close>, each the key and the name given to \<^verbatim>\<open>AddChoice\<close>.
\<close>

record update_parameters =
  vec :: "string option"
  out :: "string option"
  field_choices :: "(string \<times> string) list"

definition ClearChoices :: "update_parameters \<Rightarrow> update_parameters" where
  "ClearChoices st = st\<lparr>field_choices := []\<rparr>"

definition AddChoice :: "string \<Rightarrow> string \<Rightarrow> update_parameters \<Rightarrow> update_parameters" where
  "AddChoice key name st = st\<lparr>field_choices := field_choices st @ [(key, name)]\<rparr>"

text \<open>The body of the loop over the fields of the feature, for one field.\<close>

definition add_field :: "OGRFieldDefn \<Rightarrow> update_parameters \<Rightarrow> update_parameters" where
  "add_field defn st =
     (let item = GetNameRef defn;
          (key, e) = remove_if IsNotAlphaNum item;
          key = transform e tolower key;
          fieldType = GetType defn
      in if fieldType = OFTString \<or> fieldType = OFTInteger \<or> fieldType = OFTInteger64
         then AddChoice (''field.'' @ substr key 0 e) item st
         else st)"

text \<open>The check of the extension of \<^verbatim>\<open>out\<close>, the second half of the method.\<close>

definition wrong_extension :: "string \<Rightarrow> string" where
  "wrong_extension extension =
     extension @ '' is a wrong extension for parameter '' @ [CHR 0x22] @ ''out'' @ [CHR 0x22]
       @ '': Expected .xml''"

definition check_out :: "SystemTools \<Rightarrow> update_parameters \<Rightarrow> error option" where
  "check_out sys st =
     (case out st of
        None \<Rightarrow> None
      | Some filename \<Rightarrow>
          (let extension = GetFilenameLastExtension sys filename
           in if LowerCase sys extension \<noteq> ''.xml''
              then Some (Fatal (wrong_extension extension))
              else None))"

text \<open>
  \<^verbatim>\<open>DoUpdateParameters\<close>. \<open>ogr\<close> is the content of the vector files: what
  \<^verbatim>\<open>ogr::DataSource::New(vectorFile, Read)\<close> gives for a file name, which is taken to
  open. The method reads layer
  0 and its next (first) feature, clears the choices and adds one per accepted field; a data
  source with no layer or a layer with no feature leaves the C++ with a null object to
  dereference. The result is the actions performed, the parameters as the method leaves
  them, and the error that ended it, if any: what the method wrote before a fatal error
  stays written.
\<close>

definition DoUpdateParameters ::
  "SystemTools \<Rightarrow> (string \<Rightarrow> OGRDataSource) \<Rightarrow> update_parameters
     \<Rightarrow> action list \<times> update_parameters \<times> error option" where
  "DoUpdateParameters sys ogr st =
     (case vec st of
        None \<Rightarrow> ([], st, check_out sys st)
      | Some vectorFile \<Rightarrow>
          (case ogr vectorFile of
             [] \<Rightarrow> ([OpenVectorDataSource vectorFile], st,
                    Some (UndefinedBehaviour ''GetLayer(0)''))
           | layer # _ \<Rightarrow>
               (case layer of
                  [] \<Rightarrow> ([OpenVectorDataSource vectorFile], ClearChoices st,
                         Some (UndefinedBehaviour ''GetNextFeature()''))
                | feature # _ \<Rightarrow>
                    (let st' = fold add_field feature (ClearChoices st)
                     in ([OpenVectorDataSource vectorFile], st', check_out sys st')))))"

subsection \<open>DoExecute\<close>

text \<open>
  What the method sets on a \<^verbatim>\<open>VectorDataToLabelImageFilter\<close> beyond the grid of the
  input image.
\<close>

record RasterizeSettings =
  BurnAttribute :: string
  BackgroundValue :: LabelValueType
  DefaultBurnValue :: LabelValueType

text \<open>The settings of the two rasterizers: of the geometry identifier, and of the class.\<close>

definition FIDSettings :: RasterizeSettings where
  "FIDSettings =
     \<lparr>BurnAttribute = ''________'', BackgroundValue = intNoData, DefaultBurnValue = 0\<rparr>"

definition ClassSettings :: "string \<Rightarrow> RasterizeSettings" where
  "ClassSettings fieldName =
     \<lparr>BurnAttribute = fieldName, BackgroundValue = intNoData, DefaultBurnValue = 0\<rparr>"

text \<open>
  The filters of the OTB library the method instantiates, as functions of their inputs:
  the reprojection of the vector data into the image, the rasterization of vector data on
  the grid of an image, the no-data mask of an image (with the cast to a vector image), and
  the label population map of the streaming statistics filter, which also takes the
  \<^verbatim>\<open>ram\<close> parameter given to its streamer. The types of images, vector data, masks and
  label images are left open.
\<close>

record ('img, 'vec, 'msk, 'lab) otb =
  VectorDataReprojFilter :: "'vec \<Rightarrow> 'img \<Rightarrow> 'vec"
  RasterizeFilter :: "RasterizeSettings \<Rightarrow> 'vec \<Rightarrow> 'img \<Rightarrow> 'lab"
  NoDataMaskFilter :: "'img \<Rightarrow> 'msk"
  StatsFilter :: "int \<Rightarrow> 'msk \<Rightarrow> 'lab \<Rightarrow> LabelPopulationMapType"

text \<open>
  The parameters \<^verbatim>\<open>DoExecute\<close> reads: the image \<^verbatim>\<open>in\<close>, the vector data \<^verbatim>\<open>vec\<close>, the
  file name \<^verbatim>\<open>out\<close>, the selected items and the choice names of \<^verbatim>\<open>field\<close>, and
  \<^verbatim>\<open>ram\<close>.
\<close>

record ('img, 'vec) execute_parameters =
  param_in :: 'img
  param_vec :: 'vec
  param_out :: string
  selected_items :: "nat list"
  choice_names :: "string list"
  param_ram :: int

text \<open>What the statistics writer receives: the file name and the two named maps.\<close>

record statistics =
  FileName :: string
  samplesPerClass :: LabelPopulationMapType
  samplesPerVector :: LabelPopulationMapType

text \<open>
  The label population maps of the two statistics filters after their update
  (\<^verbatim>\<open>m_FIDStatsFilter->GetLabelPopulationMap()\<close> and
  \<^verbatim>\<open>m_ClassStatsFilter->GetLabelPopulationMap()\<close>): both filters read the same no-data mask
  of the input image and a raster of the same reprojected vector data on the grid of the
  input image, one the raster of geometry identifiers, the other the raster of classes.
\<close>

definition FIDStatsFilter ::
  "('img, 'vec, 'msk, 'lab) otb \<Rightarrow> ('img, 'vec) execute_parameters \<Rightarrow> LabelPopulationMapType" where
  "FIDStatsFilter lib st =
     (let xs = param_in st;
          shp = param_vec st;
          reprojected = VectorDataReprojFilter lib shp xs;
          fidRaster = RasterizeFilter lib FIDSettings reprojected xs;
          noData = NoDataMaskFilter lib xs
      in StatsFilter lib (param_ram st) noData fidRaster)"

definition ClassStatsFilter ::
  "('img, 'vec, 'msk, 'lab) otb \<Rightarrow> ('img, 'vec) execute_parameters \<Rightarrow> string
     \<Rightarrow> LabelPopulationMapType" where
  "ClassStatsFilter lib st fieldName =
     (let xs = param_in st;
          shp = param_vec st;
          reprojected = VectorDataReprojFilter lib shp xs;
          classRaster = RasterizeFilter lib (ClassSettings fieldName) reprojected xs;
          noData = NoDataMaskFilter lib xs
      in StatsFilter lib (param_ram st) noData classRaster)"

text \<open>
  \<^verbatim>\<open>DoExecute\<close>: the check of the selected field, the two statistics, the removal of the
  no-data entries, and the writer.
\<close>

definition DoExecute ::
  "('img, 'vec, 'msk, 'lab) otb \<Rightarrow> ('img, 'vec) execute_parameters
     \<Rightarrow> action list \<times> (error + statistics)" where
  "DoExecute lib st =
     (let selectedCFieldIdx = selected_items st
      in if selectedCFieldIdx = []
         then ([], Inl (Fatal ''No field has been selected for data labelling!''))
         else
           (let cFieldNames = choice_names st
            in if length cFieldNames \<le> hd selectedCFieldIdx
               then ([], Inl (UndefinedBehaviour ''cFieldNames[selectedCFieldIdx.front()]''))
               else
                 (let fieldName = cFieldNames ! hd selectedCFieldIdx;
                      fidMap = erase (FIDStatsFilter lib st) intNoData;
                      classMap = erase (ClassStatsFilter lib st fieldName) intNoData
                  in ([SetupDEMHandler, GetParameterImage ''in'', GetParameterVectorData ''vec'',
                       UpdateReprojection,
                       UpdateStatistics ''Computing number of samples per vector'',
                       UpdateStatistics ''Computing number of samples per class'',
                       UpdateStatisticsWriter (param_out st)],
                      Inr \<lparr>FileName = param_out st, samplesPerClass = classMap,
                           samplesPerVector = fidMap\<rparr>))))"

section \<open>The library filters\<close>

text \<open>
  The filters themselves belong to the OTB library; the application only includes their
  headers. Their behaviour is taken from the specification of the statistics engine: the
  geometry labeler, the validity mask builder and the streaming population accumulator.
\<close>

subsection \<open>Rasters\<close>

text \<open>Modelled from the spec: a cell of the grid of a raster, by column and row.\<close>

type_synonym cell = "nat \<times> nat"

text \<open>
  Modelled from the spec: the source raster, of which the sources only hold the type name
  \<^verbatim>\<open>FloatVectorImageType\<close>. It has a pixel grid size, the band values of every pixel,
  and an optional declared no-data value per band. A band value is only ever compared with
  the no-data value of its band.
\<close>

record image =
  img_size :: "nat \<times> nat"
  img_bands :: "cell \<Rightarrow> real list"
  img_nodata :: "real option list"

text \<open>
  Modelled from the spec: the validity mask, a grid congruent to the source raster; each
  cell is a boolean.
\<close>

record mask_image =
  mask_size :: "nat \<times> nat"
  mask_at :: "cell \<Rightarrow> bool"

text \<open>
  Modelled from the spec: a label raster, a grid congruent to the source raster; each cell
  holds a label value.
\<close>

record label_image =
  label_size :: "nat \<times> nat"
  label_at :: "cell \<Rightarrow> LabelValueType"

subsection \<open>Validity mask builder\<close>

text \<open>
  Modelled from the spec: a pixel is usable iff none of its bands equals the no-data value
  of its band; a band with no declared no-data value never makes it unusable.
\<close>

definition usable :: "real list \<Rightarrow> real option list \<Rightarrow> bool" where
  "usable bands nodata = list_all (\<lambda>(v, nd). nd \<noteq> Some v) (zip bands nodata)"

text \<open>
  Modelled from the spec: \<^verbatim>\<open>otb::ImageToNoDataMaskFilter\<close> is not part of the sources. The
  mask has the grid of the source raster, and a cell is true iff the pixel there is usable.
\<close>

definition validity_mask :: "image \<Rightarrow> mask_image" where
  "validity_mask img =
     \<lparr>mask_size = img_size img, mask_at = (\<lambda>c. usable (img_bands img c) (img_nodata img))\<rparr>"

subsection \<open>Geometry labeler\<close>

text \<open>
  Modelled from the spec: a geometry record, of which the sources only hold the type name
  \<^verbatim>\<open>VectorData\<close>. A geometry has a boundary in the grid of the raster (the cells whose
  centre it covers), a synthetic identifier assigned at read time, and an attribute table
  whose values are read as integer burn values.
\<close>

record geometry =
  covers :: "cell \<Rightarrow> bool"
  geometry_id :: LabelValueType
  attribute :: "string \<rightharpoonup> LabelValueType"

text \<open>
  Modelled from the spec: the burn-value selector, the geometry identifier or the class
  code.
\<close>

datatype burn_selector = ByIdentifier | ByClassField string

text \<open>
  Modelled from the spec: the selector a burn attribute stands for. The application asks
  for the identifier with the burn attribute \<^verbatim>\<open>"________"\<close> ("Trick to get the polygon
  ID") and for the class code with the name of the selected field.
\<close>

definition selector_of :: "string \<Rightarrow> burn_selector" where
  "selector_of name = (if name = ''________'' then ByIdentifier else ByClassField name)"

text \<open>
  Modelled from the spec: the burn value of a geometry, its identifier or the value of its
  class field; a geometry may lack a value for the class field.
\<close>

definition burn_value :: "burn_selector \<Rightarrow> geometry \<Rightarrow> LabelValueType option" where
  "burn_value sel g = (case sel of ByIdentifier \<Rightarrow> Some (geometry_id g) | ByClassField f \<Rightarrow> attribute g f)"

text \<open>
  Modelled from the spec: one geometry burnt into a raster. The cells it covers take its
  burn value, over what the earlier geometries left; a geometry with no value for the class
  field leaves its cells unmarked.
\<close>

definition burn :: "burn_selector \<Rightarrow> geometry \<Rightarrow> (cell \<Rightarrow> LabelValueType) \<Rightarrow> (cell \<Rightarrow> LabelValueType)" where
  "burn sel g raster =
     (case burn_value sel g of
        None \<Rightarrow> raster
      | Some v \<Rightarrow> (\<lambda>c. if covers g c then v else raster c))"

text \<open>
  Modelled from the spec: \<^verbatim>\<open>otb::VectorDataToLabelImageFilter\<close> is not part of the
  sources. The raster has the grid of the source raster; the geometries are burnt in input
  order, so that the last geometry that covers a cell wins, and a cell no geometry marked
  holds the background value the filter was set to. The default burn value has no part in
  the contract of the labeler.
\<close>

definition label_raster :: "RasterizeSettings \<Rightarrow> geometry list \<Rightarrow> image \<Rightarrow> label_image" where
  "label_raster settings geometries img =
     \<lparr>label_size = img_size img,
      label_at = fold (burn (selector_of (BurnAttribute settings))) geometries
                   (\<lambda>c. BackgroundValue settings)\<rparr>"

subsection \<open>Streaming population accumulator\<close>

text \<open>
  Modelled from the spec: the accumulator at one cell. If the validity mask is true at the
  cell, the entry of the population map for the label value at the cell is incremented
  (created with count 1 if absent); if the mask is false, the cell is skipped.
\<close>

definition accumulate_cell ::
  "(cell \<Rightarrow> bool) \<Rightarrow> (cell \<Rightarrow> LabelValueType) \<Rightarrow> cell
     \<Rightarrow> LabelPopulationMapType \<Rightarrow> LabelPopulationMapType" where
  "accumulate_cell valid label c m =
     (if valid c
      then m(label c \<mapsto> (case m (label c) of None \<Rightarrow> 1 | Some n \<Rightarrow> n + 1))
      else m)"

text \<open>Modelled from the spec: the accumulator over one tile, cell by cell.\<close>

definition accumulate_tile ::
  "(cell \<Rightarrow> bool) \<Rightarrow> (cell \<Rightarrow> LabelValueType) \<Rightarrow> cell list
     \<Rightarrow> LabelPopulationMapType \<Rightarrow> LabelPopulationMapType" where
  "accumulate_tile valid label tile m = fold (accumulate_cell valid label) tile m"

text \<open>
  Modelled from the spec: the accumulator over a sequence of tiles. The map is reset to
  empty, then the tiles are consumed in sequence.
\<close>

definition accumulate_tiles ::
  "(cell \<Rightarrow> bool) \<Rightarrow> (cell \<Rightarrow> LabelValueType) \<Rightarrow> cell list list \<Rightarrow> LabelPopulationMapType" where
  "accumulate_tiles valid label tiles = fold (accumulate_tile valid label) tiles Map.empty"

text \<open>Modelled from the spec: the merge of two partial maps by key-wise summation.\<close>

definition merge_maps ::
  "LabelPopulationMapType \<Rightarrow> LabelPopulationMapType \<Rightarrow> LabelPopulationMapType" where
  "merge_maps a b =
     (\<lambda>k. case a k of
            None \<Rightarrow> b k
          | Some x \<Rightarrow> (case b k of None \<Rightarrow> Some x | Some y \<Rightarrow> Some (x + y)))"

text \<open>
  Modelled from the spec: the streaming. The raster is partitioned into a deterministic
  sequence of tiles, with a tile size chosen from the memory budget: a streaming is a
  function from the budget and the size of the raster to a sequence of tiles.
\<close>

type_synonym streaming = "int \<Rightarrow> nat \<times> nat \<Rightarrow> cell list list"

text \<open>Modelled from the spec: the full extent of a raster, row by row.\<close>

definition region_cells :: "nat \<times> nat \<Rightarrow> cell list" where
  "region_cells sz = concat (map (\<lambda>y. map (\<lambda>x. (x, y)) [0..<fst sz]) [0..<snd sz])"

text \<open>
  Modelled from the spec: a sequence of tiles covers the full extent exactly once, with no
  cell counted twice and no gap.
\<close>

definition covers_once :: "nat \<times> nat \<Rightarrow> cell list list \<Rightarrow> bool" where
  "covers_once sz tiles = (mset (concat tiles) = mset (region_cells sz))"

text \<open>
  Modelled from the spec: \<^verbatim>\<open>otb::StreamingStatisticsMapFromLabelImageFilter\<close> is not part
  of the sources. The accumulator is bound to a label raster and a validity mask and runs
  over the tiles the streaming gives for the memory budget.
\<close>

definition label_population ::
  "streaming \<Rightarrow> int \<Rightarrow> mask_image \<Rightarrow> label_image \<Rightarrow> LabelPopulationMapType" where
  "label_population split ram valid labels =
     accumulate_tiles (mask_at valid) (label_at labels) (split ram (mask_size valid))"

text \<open>
  Modelled from the spec: the library, for a given streaming. The vector data reaches the
  core already reprojected onto the grid of the raster.
\<close>

definition streaming_otb :: "streaming \<Rightarrow> (image, geometry list, mask_image, label_image) otb" where
  "streaming_otb split =
     \<lparr>VectorDataReprojFilter = (\<lambda>shp xs. shp),
      RasterizeFilter = label_raster,
      NoDataMaskFilter = validity_mask,
      StatsFilter = label_population split\<rparr>"

subsection \<open>Sums and counts\<close>

text \<open>The sum of the counts of a population map.\<close>

definition population_sum :: "LabelPopulationMapType \<Rightarrow> nat" where
  "population_sum m = (\<Sum>k\<in>dom m. the (m k))"

text \<open>The number of cells of a list that are valid and carry the label \<open>k\<close>.\<close>

definition valid_count ::
  "(cell \<Rightarrow> bool) \<Rightarrow> (cell \<Rightarrow> LabelValueType) \<Rightarrow> cell list \<Rightarrow> LabelValueType \<Rightarrow> nat" where
  "valid_count valid label cs k = length (filter (\<lambda>c. valid c \<and> label c = k) cs)"

text \<open>The population map of a counting function: the keys with a count other than 0.\<close>

definition count_map :: "(LabelValueType \<Rightarrow> nat) \<Rightarrow> LabelPopulationMapType" where
  "count_map f = (\<lambda>k. if f k = 0 then None else Some (f k))"

subsection \<open>An example run\<close>

text \<open>
  A streaming that cuts the extent, row by row, into tiles of \<open>ram + 1\<close> cells.
\<close>

fun chop :: "nat \<Rightarrow> 'a list \<Rightarrow> 'a list list" where
  "chop n [] = []"
| "chop n (x # xs) = (x # take n xs) # chop n (drop n xs)"

definition strips :: streaming where
  "strips ram sz = chop (nat ram) (region_cells sz)"

text \<open>
  A raster of five cells in one row, whose fourth pixel carries the declared no-data value,
  and three geometries: the first two overlap in the second cell, the third covers the
  fourth cell only; the fifth cell is covered by none.
\<close>

definition example_image :: image where
  "example_image =
     \<lparr>img_size = (5, 1),
      img_bands = (\<lambda>c. if c = (3, 0) then [0] else [1]),
      img_nodata = [Some 0]\<rparr>"

definition example_geometries :: "geometry list" where
  "example_geometries =
     [\<lparr>covers = (\<lambda>c. fst c \<le> 1), geometry_id = 1, attribute = [''class'' \<mapsto> 5]\<rparr>,
      \<lparr>covers = (\<lambda>c. 1 \<le> fst c \<and> fst c \<le> 2), geometry_id = 9, attribute = [''class'' \<mapsto> 3]\<rparr>,
      \<lparr>covers = (\<lambda>c. fst c = 3), geometry_id = 4, attribute = [''class'' \<mapsto> 7]\<rparr>]"

definition example_parameters :: "(image, geometry list) execute_parameters" where
  "example_parameters =
     \<lparr>param_in = example_image, param_vec = example_geometries,
      param_out = ''polygonStat.xml'', selected_items = [0], choice_names = [''class''],
      param_ram = 1\<rparr>"

text \<open>A raster of one usable cell and one geometry of class 5 that covers it.\<close>

definition covered_parameters :: "(image, geometry list) execute_parameters" where
  "covered_parameters =
     \<lparr>param_in = \<lparr>img_size = (1, 1), img_bands = (\<lambda>c. [1]), img_nodata = [None]\<rparr>,
      param_vec = [\<lparr>covers = (\<lambda>c. True), geometry_id = 1, attribute = [''class'' \<mapsto> 5]\<rparr>],
      param_out = ''polygonStat.xml'', selected_items = [0], choice_names = [''class''],
      param_ram = 1\<rparr>"

text \<open>The same raster and one geometry whose class is the largest 32-bit value.\<close>

definition collision_parameters :: "(image, geometry list) execute_parameters" where
  "collision_parameters =
     \<lparr>param_in = \<lparr>img_size = (1, 1), img_bands = (\<lambda>c. [1]), img_nodata = [None]\<rparr>,
      param_vec = [\<lparr>covers = (\<lambda>c. True), geometry_id = 1, attribute = [''class'' \<mapsto> 4294967295]\<rparr>],
      param_out = ''polygonStat.xml'', selected_items = [0], choice_names = [''class''],
      param_ram = 1\<rparr>"

text \<open>
  A vector file with two layers: the features of the first have a string, an integer, a
  real and a 64-bit integer field, the feature of the second one integer field.
\<close>

definition example_fields :: OGRFeature where
  "example_fields =
     [\<lparr>GetNameRef = ''Class_Name'', GetType = OFTString\<rparr>,
      \<lparr>GetNameRef = ''label'', GetType = OFTInteger\<rparr>,
      \<lparr>GetNameRef = ''area (m2)'', GetType = OFTReal\<rparr>,
      \<lparr>GetNameRef = ''ID-64'', GetType = OFTInteger64\<rparr>]"

definition example_source :: "string \<Rightarrow> OGRDataSource" where
  "example_source vectorFile =
     [[example_fields, example_fields], [[\<lparr>GetNameRef = ''code'', GetType = OFTInteger\<rparr>]]]"

section \<open>Properties of the application\<close>

subsection \<open>Auxiliary facts\<close>

lemma intNoData_max: "l \<le> intNoData"
proof -
  have h: "intNoData = - 1" by (simp add: intNoData_def)
  show ?thesis unfolding h by (rule word_n1_ge)
qed

lemma intNoData_not_zero: "intNoData \<noteq> 0"
  by (simp add: intNoData_def)

lemma erase_same: "erase m k k = None"
  by (simp add: erase_def)

lemma erase_other: "j \<noteq> k \<Longrightarrow> erase m k j = m j"
  by (simp add: erase_def)

lemma erase_absent: "m k = None \<Longrightarrow> erase m k = m"
  by (auto simp: erase_def)

lemma DoExecute_returns:
  assumes "selected_items st \<noteq> []" and "hd (selected_items st) < length (choice_names st)"
  shows "DoExecute lib st =
    ([SetupDEMHandler, GetParameterImage ''in'', GetParameterVectorData ''vec'',
      UpdateReprojection,
      UpdateStatistics ''Computing number of samples per vector'',
      UpdateStatistics ''Computing number of samples per class'',
      UpdateStatisticsWriter (param_out st)],
     Inr \<lparr>FileName = param_out st,
          samplesPerClass =
            erase (ClassStatsFilter lib st (choice_names st ! hd (selected_items st))) intNoData,
          samplesPerVector = erase (FIDStatsFilter lib st) intNoData\<rparr>)"
  using assms by (simp add: DoExecute_def Let_def)

text \<open>The sanitized key of a field name.\<close>

lemma add_field_choices:
  "field_choices (add_field d st) =
     field_choices st @
       (if GetType d = OFTString \<or> GetType d = OFTInteger \<or> GetType d = OFTInteger64
        then [(''field.'' @ map tolower (filter isalnum (GetNameRef d)), GetNameRef d)]
        else [])"
  by (simp add: add_field_def remove_if_def transform_def substr_def AddChoice_def
      IsNotAlphaNum_def Let_def)

lemma add_field_out: "out (add_field d st) = out st"
  by (simp add: add_field_def AddChoice_def Let_def split: prod.splits)

lemma fold_add_field_out: "out (fold add_field ds st) = out st"
  by (induction ds arbitrary: st) (simp_all add: add_field_out)

lemma fold_add_field_choices:
  "field_choices (fold add_field ds st) =
     field_choices st @
       map (\<lambda>d. (''field.'' @ map tolower (filter isalnum (GetNameRef d)), GetNameRef d))
         (filter (\<lambda>d. GetType d = OFTString \<or> GetType d = OFTInteger \<or> GetType d = OFTInteger64) ds)"
  by (induction ds arbitrary: st) (simp_all add: add_field_choices)

lemma check_out_wrong:
  "out st = Some filename \<Longrightarrow>
   LowerCase sys (GetFilenameLastExtension sys filename) \<noteq> ''.xml'' \<Longrightarrow>
     check_out sys st = Some (Fatal (wrong_extension (GetFilenameLastExtension sys filename)))"
  by (simp add: check_out_def Let_def)



subsection \<open>DoUpdateParameters\<close>

text \<open>
  C7. When \<^verbatim>\<open>out\<close> has a value whose last extension, lowered, is not \<^verbatim>\<open>.xml\<close>,
  \<^verbatim>\<open>DoUpdateParameters\<close> ends with an error, and the only action it has performed is the
  opening of the vector file when \<^verbatim>\<open>vec\<close> has a value: no raster was read and no
  statistics filter was updated. Whenever the listing of the fields went through (or
  \<^verbatim>\<open>vec\<close> has no value), the error is the fatal "wrong extension" error. The path
  \<^verbatim>\<open>stats.json\<close> is the witness.
\<close>

theorem wrong_extension_is_fatal:
  assumes "out st = Some filename"
    and "LowerCase sys (GetFilenameLastExtension sys filename) \<noteq> ''.xml''"
  shows "snd (snd (DoUpdateParameters sys ogr st)) \<noteq> None \<and>
    fst (DoUpdateParameters sys ogr st)
      = (case vec st of None \<Rightarrow> [] | Some vectorFile \<Rightarrow> [OpenVectorDataSource vectorFile]) \<and>
    ((vec st = None \<or> (\<exists>feature features layers. ogr (the (vec st)) = (feature # features) # layers))
      \<longrightarrow> snd (snd (DoUpdateParameters sys ogr st))
            = Some (Fatal (wrong_extension (GetFilenameLastExtension sys filename))))"
proof (cases "vec st")
  case None
  then show ?thesis
    using assms by (simp add: DoUpdateParameters_def check_out_wrong)
next
  case (Some vectorFile)
  show ?thesis
  proof (cases "ogr vectorFile")
    case Nil
    then show ?thesis using Some by (simp add: DoUpdateParameters_def)
  next
    case (Cons layer layers)
    show ?thesis
    proof (cases layer)
      case Nil
      then show ?thesis using Some Cons by (simp add: DoUpdateParameters_def)
    next
      case (Cons feature features)
      have "out (fold add_field feature (ClearChoices st)) = Some filename"
        using assms(1) by (simp add: fold_add_field_out ClearChoices_def)
      then have "check_out sys (fold add_field feature (ClearChoices st))
          = Some (Fatal (wrong_extension (GetFilenameLastExtension sys filename)))"
        using assms(2) by (rule check_out_wrong)
      then show ?thesis
        using Some \<open>ogr vectorFile = layer # layers\<close> Cons
        by (simp add: DoUpdateParameters_def Let_def)
    qed
  qed
qed

theorem wrong_extension_is_fatal_witness:
  "out \<lparr>vec = Some ''variousVectors.shp'', out = Some ''stats.json'', field_choices = []\<rparr>
     = Some ''stats.json'' \<and>
   LowerCase itksys (GetFilenameLastExtension itksys ''stats.json'') = ''.json'' \<and>
   ''.json'' \<noteq> ''.xml'' \<and>
   example_source ''variousVectors.shp''
     = (example_fields # [example_fields]) # [[[\<lparr>GetNameRef = ''code'', GetType = OFTInteger\<rparr>]]] \<and>
   fst (DoUpdateParameters itksys example_source
          \<lparr>vec = Some ''variousVectors.shp'', out = Some ''stats.json'', field_choices = []\<rparr>)
     = [OpenVectorDataSource ''variousVectors.shp''] \<and>
   snd (snd (DoUpdateParameters itksys example_source
          \<lparr>vec = Some ''variousVectors.shp'', out = Some ''stats.json'', field_choices = []\<rparr>))
     = Some (Fatal (wrong_extension ''.json''))"
proof -
  let ?st = "\<lparr>vec = Some ''variousVectors.shp'', out = Some ''stats.json'', field_choices = []\<rparr>"
  have a: "out ?st = Some ''stats.json''" by simp
  have e: "GetFilenameLastExtension itksys ''stats.json'' = ''.json''" by code_simp
  have l: "LowerCase itksys ''.json'' = ''.json''" by code_simp
  have b: "LowerCase itksys (GetFilenameLastExtension itksys ''stats.json'') \<noteq> ''.xml''"
    unfolding e l by simp
  have s: "example_source ''variousVectors.shp''
     = (example_fields # [example_fields]) # [[[\<lparr>GetNameRef = ''code'', GetType = OFTInteger\<rparr>]]]"
    by (simp add: example_source_def)
  show ?thesis
    using wrong_extension_is_fatal [OF a b, of example_source] s e l by simp
qed

text \<open>
  C10. The choices of \<^verbatim>\<open>field\<close> after \<^verbatim>\<open>DoUpdateParameters\<close> are a function of the first
  feature of layer 0 alone: neither the other features, nor the other layers, nor the earlier
  choices matter. There is one choice per field of that feature whose type is
  \<^verbatim>\<open>OFTString\<close>, \<^verbatim>\<open>OFTInteger\<close> or \<^verbatim>\<open>OFTInteger64\<close>, and none for any other field, in
  the order of the fields. Its name is the field name; its key, given to \<^verbatim>\<open>AddChoice\<close>
  below the parameter \<^verbatim>\<open>field\<close>, is the field name without its non-alphanumeric
  characters and with its letters lowered.
\<close>

theorem field_choices_of_first_feature:
  assumes "vec st = Some vectorFile"
    and "ogr vectorFile = (feature # features) # layers"
  shows "field_choices (fst (snd (DoUpdateParameters sys ogr st))) =
    map (\<lambda>d. (''field.'' @ map tolower (filter isalnum (GetNameRef d)), GetNameRef d))
      (filter (\<lambda>d. GetType d = OFTString \<or> GetType d = OFTInteger \<or> GetType d = OFTInteger64)
         feature)"
  using assms
  by (simp add: DoUpdateParameters_def Let_def fold_add_field_choices ClearChoices_def)

theorem field_choices_of_first_feature_witness:
  "vec \<lparr>vec = Some ''variousVectors.shp'', out = None, field_choices = [(''field.old'', ''old'')]\<rparr>
     = Some ''variousVectors.shp'' \<and>
   example_source ''variousVectors.shp''
     = (example_fields # [example_fields]) # [[[\<lparr>GetNameRef = ''code'', GetType = OFTInteger\<rparr>]]] \<and>
   field_choices (fst (snd (DoUpdateParameters itksys example_source
      \<lparr>vec = Some ''variousVectors.shp'', out = None, field_choices = [(''field.old'', ''old'')]\<rparr>)))
     = [(''field.classname'', ''Class_Name''), (''field.label'', ''label''), (''field.id64'', ''ID-64'')]"
proof -
  let ?st = "\<lparr>vec = Some ''variousVectors.shp'', out = None, field_choices = [(''field.old'', ''old'')]\<rparr>"
  have a: "vec ?st = Some ''variousVectors.shp''" by simp
  have s: "example_source ''variousVectors.shp''
     = (example_fields # [example_fields]) # [[[\<lparr>GetNameRef = ''code'', GetType = OFTInteger\<rparr>]]]"
    by (simp add: example_source_def)
  have k: "map (\<lambda>d. (''field.'' @ map tolower (filter isalnum (GetNameRef d)), GetNameRef d))
      (filter (\<lambda>d. GetType d = OFTString \<or> GetType d = OFTInteger \<or> GetType d = OFTInteger64)
         example_fields)
    = [(''field.classname'', ''Class_Name''), (''field.label'', ''label''), (''field.id64'', ''ID-64'')]"
    by code_simp
  show ?thesis
    using field_choices_of_first_feature [where ogr = example_source and sys = itksys, OF a s] s k by simp
qed

subsection \<open>DoExecute\<close>

text \<open>
  C2. Whenever a field is selected, \<^verbatim>\<open>DoExecute\<close> returns the two maps, and neither
  \<^verbatim>\<open>samplesPerClass\<close> nor \<^verbatim>\<open>samplesPerVector\<close> has an entry for \<open>intNoData\<close>, which is
  the largest value of the label type. This holds whatever the library filters computed.
\<close>

theorem no_data_entries_removed:
  assumes "selected_items st \<noteq> []"
    and "hd (selected_items st) < length (choice_names st)"
  shows "\<exists>tr stats. DoExecute lib st = (tr, Inr stats) \<and>
    samplesPerClass stats intNoData = None \<and>
    samplesPerVector stats intNoData = None \<and>
    (\<forall>l. l \<le> intNoData)"
  using DoExecute_returns [OF assms, of lib] by (simp add: erase_same intNoData_max)

theorem no_data_entries_removed_witness:
  "selected_items example_parameters \<noteq> [] \<and>
   hd (selected_items example_parameters) < length (choice_names example_parameters) \<and>
   FIDStatsFilter (streaming_otb strips) example_parameters intNoData = Some 1 \<and>
   ClassStatsFilter (streaming_otb strips) example_parameters ''class'' intNoData = Some 1 \<and>
   (\<exists>tr stats. DoExecute (streaming_otb strips) example_parameters = (tr, Inr stats) \<and>
      samplesPerClass stats intNoData = None \<and> samplesPerVector stats intNoData = None)"
proof -
  have a: "selected_items example_parameters \<noteq> []"
    by (simp add: example_parameters_def)
  have b: "hd (selected_items example_parameters) < length (choice_names example_parameters)"
    by (simp add: example_parameters_def)
  have c: "FIDStatsFilter (streaming_otb strips) example_parameters intNoData = Some 1"
    by code_simp
  have d: "ClassStatsFilter (streaming_otb strips) example_parameters ''class'' intNoData = Some 1"
    by code_simp
  from no_data_entries_removed [OF a b, of "streaming_otb strips"]
  obtain tr stats where "DoExecute (streaming_otb strips) example_parameters = (tr, Inr stats) \<and>
    samplesPerClass stats intNoData = None \<and>
    samplesPerVector stats intNoData = None \<and>
    (\<forall>l. l \<le> intNoData)"
    by (elim exE) (rule that)
  then show ?thesis using a b c d by blast
qed

text \<open>
  C9. The finalization only removes a key: every entry of the two maps whose key is not
  \<open>intNoData\<close> is the entry of the map the statistics filter returned, and a map that had
  no entry for \<open>intNoData\<close> is written unchanged.
\<close>

theorem finalization_only_removes_no_data:
  assumes "selected_items st \<noteq> []"
    and "hd (selected_items st) < length (choice_names st)"
    and "fieldName = choice_names st ! hd (selected_items st)"
  shows "\<exists>tr stats. DoExecute lib st = (tr, Inr stats) \<and>
    (\<forall>k. k \<noteq> intNoData \<longrightarrow>
       samplesPerVector stats k = FIDStatsFilter lib st k \<and>
       samplesPerClass stats k = ClassStatsFilter lib st fieldName k) \<and>
    (FIDStatsFilter lib st intNoData = None \<longrightarrow> samplesPerVector stats = FIDStatsFilter lib st) \<and>
    (ClassStatsFilter lib st fieldName intNoData = None \<longrightarrow>
       samplesPerClass stats = ClassStatsFilter lib st fieldName)"
  using DoExecute_returns [OF assms(1,2), of lib] assms(3)
  by (simp add: erase_other erase_absent)


theorem finalization_only_removes_no_data_witness:
  "selected_items example_parameters \<noteq> [] \<and>
   hd (selected_items example_parameters) < length (choice_names example_parameters) \<and>
   choice_names example_parameters ! hd (selected_items example_parameters) = ''class'' \<and>
   FIDStatsFilter (streaming_otb strips) example_parameters intNoData = Some 1 \<and>
   FIDStatsFilter (streaming_otb strips) example_parameters 9 = Some 2 \<and>
   ClassStatsFilter (streaming_otb strips) example_parameters ''class'' 3 = Some 2 \<and>
   (\<exists>tr stats. DoExecute (streaming_otb strips) example_parameters = (tr, Inr stats) \<and>
      samplesPerVector stats 9 = Some 2 \<and> samplesPerClass stats 3 = Some 2) \<and>
   selected_items covered_parameters \<noteq> [] \<and>
   hd (selected_items covered_parameters) < length (choice_names covered_parameters) \<and>
   choice_names covered_parameters ! hd (selected_items covered_parameters) = ''class'' \<and>
   FIDStatsFilter (streaming_otb strips) covered_parameters intNoData = None \<and>
   ClassStatsFilter (streaming_otb strips) covered_parameters ''class'' intNoData = None \<and>
   (\<exists>tr stats. DoExecute (streaming_otb strips) covered_parameters = (tr, Inr stats) \<and>
      samplesPerVector stats = FIDStatsFilter (streaming_otb strips) covered_parameters \<and>
      samplesPerClass stats = ClassStatsFilter (streaming_otb strips) covered_parameters ''class'')"
proof -
  let ?lib = "streaming_otb strips"
  have a: "selected_items example_parameters \<noteq> []"
    by (simp add: example_parameters_def)
  have b: "hd (selected_items example_parameters) < length (choice_names example_parameters)"
    by (simp add: example_parameters_def)
  have f: "''class'' = choice_names example_parameters ! hd (selected_items example_parameters)"
    by (simp add: example_parameters_def)
  have c: "FIDStatsFilter ?lib example_parameters intNoData = Some 1" by code_simp
  have d: "FIDStatsFilter ?lib example_parameters 9 = Some 2" by code_simp
  have e: "ClassStatsFilter ?lib example_parameters ''class'' 3 = Some 2" by code_simp
  have n9: "(9 :: LabelValueType) \<noteq> intNoData" and n3: "(3 :: LabelValueType) \<noteq> intNoData"
    by (simp_all add: intNoData_def)
  from finalization_only_removes_no_data [OF a b f, of ?lib]
  obtain tr stats where all: "DoExecute ?lib example_parameters = (tr, Inr stats) \<and>
    (\<forall>k. k \<noteq> intNoData \<longrightarrow>
       samplesPerVector stats k = FIDStatsFilter ?lib example_parameters k \<and>
       samplesPerClass stats k = ClassStatsFilter ?lib example_parameters ''class'' k) \<and>
    (FIDStatsFilter ?lib example_parameters intNoData = None \<longrightarrow>
       samplesPerVector stats = FIDStatsFilter ?lib example_parameters) \<and>
    (ClassStatsFilter ?lib example_parameters ''class'' intNoData = None \<longrightarrow>
       samplesPerClass stats = ClassStatsFilter ?lib example_parameters ''class'')"
    by (elim exE) (rule that)
  then have "DoExecute ?lib example_parameters = (tr, Inr stats) \<and>
      samplesPerVector stats 9 = Some 2 \<and> samplesPerClass stats 3 = Some 2"
    using n9 n3 d e by simp
  then have kept: "\<exists>tr stats. DoExecute ?lib example_parameters = (tr, Inr stats) \<and>
      samplesPerVector stats 9 = Some 2 \<and> samplesPerClass stats 3 = Some 2"
    by blast
  have a': "selected_items covered_parameters \<noteq> []"
    by (simp add: covered_parameters_def)
  have b': "hd (selected_items covered_parameters) < length (choice_names covered_parameters)"
    by (simp add: covered_parameters_def)
  have f': "''class'' = choice_names covered_parameters ! hd (selected_items covered_parameters)"
    by (simp add: covered_parameters_def)
  have c': "FIDStatsFilter ?lib covered_parameters intNoData = None" by code_simp
  have d': "ClassStatsFilter ?lib covered_parameters ''class'' intNoData = None" by code_simp
  from finalization_only_removes_no_data [OF a' b' f', of ?lib]
  obtain tr' stats' where all': "DoExecute ?lib covered_parameters = (tr', Inr stats') \<and>
    (\<forall>k. k \<noteq> intNoData \<longrightarrow>
       samplesPerVector stats' k = FIDStatsFilter ?lib covered_parameters k \<and>
       samplesPerClass stats' k = ClassStatsFilter ?lib covered_parameters ''class'' k) \<and>
    (FIDStatsFilter ?lib covered_parameters intNoData = None \<longrightarrow>
       samplesPerVector stats' = FIDStatsFilter ?lib covered_parameters) \<and>
    (ClassStatsFilter ?lib covered_parameters ''class'' intNoData = None \<longrightarrow>
       samplesPerClass stats' = ClassStatsFilter ?lib covered_parameters ''class'')"
    by (elim exE) (rule that)
  then have "DoExecute ?lib covered_parameters = (tr', Inr stats') \<and>
      samplesPerVector stats' = FIDStatsFilter ?lib covered_parameters \<and>
      samplesPerClass stats' = ClassStatsFilter ?lib covered_parameters ''class''"
    using c' d' by simp
  then have same: "\<exists>tr stats. DoExecute ?lib covered_parameters = (tr, Inr stats) \<and>
      samplesPerVector stats = FIDStatsFilter ?lib covered_parameters \<and>
      samplesPerClass stats = ClassStatsFilter ?lib covered_parameters ''class''"
    by blast
  show ?thesis
    using a b f c d e kept a' b' f' c' d' same by simp
qed

text \<open>
  C8. When no item of \<^verbatim>\<open>field\<close> is selected, \<^verbatim>\<open>DoExecute\<close> ends with the fatal error
  "No field has been selected for data labelling!" and has performed no action at all: no
  image or vector data was read, nothing was reprojected, rasterized or streamed, and nothing
  was written. This holds whatever the library filters do.
\<close>

theorem no_field_selected_is_fatal:
  "selected_items st = [] \<Longrightarrow>
     DoExecute lib st = ([], Inl (Fatal ''No field has been selected for data labelling!''))"
  by (simp add: DoExecute_def)

theorem no_field_selected_is_fatal_witness:
  "selected_items (example_parameters\<lparr>selected_items := []\<rparr>) = [] \<and>
   DoExecute (streaming_otb strips) (example_parameters\<lparr>selected_items := []\<rparr>)
     = ([], Inl (Fatal ''No field has been selected for data labelling!''))"
  using no_field_selected_is_fatal [of "example_parameters\<lparr>selected_items := []\<rparr>" "streaming_otb strips"]
  by simp

section \<open>Properties of the statistics engine\<close>

subsection \<open>Auxiliary facts about the accumulator\<close>

lemma fold_accumulate_cell:
  "fold (accumulate_cell valid label) cs m k =
     (if valid_count valid label cs k = 0 then m k
      else Some (valid_count valid label cs k + (case m k of None \<Rightarrow> 0 | Some n \<Rightarrow> n)))"
proof (induction cs arbitrary: m)
  case Nil
  show ?case by (simp add: valid_count_def)
next
  case (Cons c cs)
  show ?case
    apply (simp add: Cons.IH)
    apply (simp add: valid_count_def accumulate_cell_def split: option.splits)
    done
qed

lemma fold_tiles_concat:
  "fold (accumulate_tile valid label) tiles m = fold (accumulate_cell valid label) (concat tiles) m"
  by (induction tiles arbitrary: m) (simp_all add: accumulate_tile_def)

lemma accumulate_tiles_count:
  "accumulate_tiles valid label tiles = count_map (valid_count valid label (concat tiles))"
  by (rule ext) (simp add: accumulate_tiles_def fold_tiles_concat fold_accumulate_cell count_map_def)

lemma valid_count_mset:
  assumes "mset cs = mset ds"
  shows "valid_count valid label cs = valid_count valid label ds"
proof (rule ext)
  fix k
  from assms have "size (filter_mset (\<lambda>c. valid c \<and> label c = k) (mset cs))
      = size (filter_mset (\<lambda>c. valid c \<and> label c = k) (mset ds))" by simp
  then show "valid_count valid label cs k = valid_count valid label ds k"
    by (simp add: valid_count_def flip: mset_filter)
qed

lemma valid_count_append:
  "valid_count valid label (cs @ ds) k = valid_count valid label cs k + valid_count valid label ds k"
  by (simp add: valid_count_def)

lemma merge_count_map:
  "merge_maps (count_map f) (count_map g) = count_map (\<lambda>k. f k + g k)"
  by (rule ext) (simp add: merge_maps_def count_map_def)

lemma covers_once_count:
  "covers_once sz tiles \<Longrightarrow>
     valid_count valid label (concat tiles) = valid_count valid label (region_cells sz)"
  unfolding covers_once_def by (rule valid_count_mset)

lemma sum_valid_count:
  assumes "finite K"
  shows "(\<Sum>k\<in>K. valid_count valid label cs k) = length (filter (\<lambda>c. valid c \<and> label c \<in> K) cs)"
proof (induction cs)
  case Nil
  show ?case by (simp add: valid_count_def)
next
  case (Cons c cs)
  have "(\<Sum>k\<in>K. valid_count valid label (c # cs) k)
      = (\<Sum>k\<in>K. (if valid c \<and> label c = k then 1 else 0) + valid_count valid label cs k)"
    by (rule sum.cong) (auto simp: valid_count_def)
  also have "\<dots> = (\<Sum>k\<in>K. if valid c \<and> label c = k then 1 else 0)
      + (\<Sum>k\<in>K. valid_count valid label cs k)"
    by (simp add: sum.distrib)
  also have "(\<Sum>k\<in>K. if valid c \<and> label c = k then 1 else 0)
      = (if valid c \<and> label c \<in> K then 1 else (0::nat))"
    using assms by (cases "valid c") simp_all
  finally show ?case using Cons by simp
qed

lemma population_sum_erase_count_map:
  "population_sum (erase (count_map (valid_count valid label cs)) b)
     = length (filter (\<lambda>c. valid c \<and> label c \<noteq> b) cs)"
proof -
  let ?K = "{k. valid_count valid label cs k \<noteq> 0} - {b}"
  have "?K \<subseteq> label ` set cs"
  proof
    fix k assume "k \<in> ?K"
    then have "filter (\<lambda>c. valid c \<and> label c = k) cs \<noteq> []" by (simp add: valid_count_def)
    then obtain c where "c \<in> set cs" "label c = k" by (auto simp: filter_empty_conv)
    then show "k \<in> label ` set cs" by auto
  qed
  then have fin: "finite ?K" by (rule finite_subset) simp
  have d: "dom (erase (count_map (valid_count valid label cs)) b) = ?K"
    by (auto simp: erase_def count_map_def dom_def)
  have "population_sum (erase (count_map (valid_count valid label cs)) b)
      = (\<Sum>k\<in>?K. valid_count valid label cs k)"
    unfolding population_sum_def d by (rule sum.cong) (auto simp: erase_def count_map_def)
  also have "\<dots> = length (filter (\<lambda>c. valid c \<and> label c \<in> ?K) cs)"
    using fin by (rule sum_valid_count)
  also have "\<dots> = length (filter (\<lambda>c. valid c \<and> label c \<noteq> b) cs)"
  proof -
    have "\<And>c. c \<in> set cs \<Longrightarrow> (valid c \<and> label c \<in> ?K) = (valid c \<and> label c \<noteq> b)"
      by (auto simp: valid_count_def filter_empty_conv)
    then have "filter (\<lambda>c. valid c \<and> label c \<in> ?K) cs = filter (\<lambda>c. valid c \<and> label c \<noteq> b) cs"
      by (intro filter_cong refl)
    then show ?thesis by simp
  qed
  finally show ?thesis .
qed

subsection \<open>Auxiliary facts about the labeler\<close>

lemma burn_not_covering: "\<not> covers g c \<Longrightarrow> burn sel g raster c = raster c"
  by (simp add: burn_def split: option.splits)

lemma burn_covering: "covers g c \<Longrightarrow> burn_value sel g = Some v \<Longrightarrow> burn sel g raster c = v"
  by (simp add: burn_def)

lemma fold_burn_uncovered:
  "\<forall>g\<in>set gs. \<not> covers g c \<Longrightarrow> fold (burn sel) gs raster c = raster c"
  by (induction gs arbitrary: raster) (simp_all add: burn_not_covering)

lemma fold_burn_last:
  assumes "covers g c" and "burn_value sel g = Some v" and "\<forall>h\<in>set later. \<not> covers h c"
  shows "fold (burn sel) (earlier @ g # later) raster c = v"
  using assms by (simp add: fold_burn_uncovered burn_covering)

lemma fold_burn_covered:
  assumes "\<forall>g\<in>set gs. \<exists>v. burn_value sel g = Some v \<and> v \<noteq> b"
    and "\<exists>g\<in>set gs. covers g c"
  shows "fold (burn sel) gs raster c \<noteq> b"
  using assms
proof (induction gs arbitrary: raster rule: rev_induct)
  case Nil
  then show ?case by simp
next
  case (snoc g gs)
  from snoc.prems(1) obtain v where v: "burn_value sel g = Some v" "v \<noteq> b" by auto
  show ?case
  proof (cases "covers g c")
    case True
    then show ?thesis using v by (simp add: burn_covering)
  next
    case False
    with snoc.prems(2) have "\<exists>g\<in>set gs. covers g c" by auto
    moreover from snoc.prems(1) have "\<forall>g\<in>set gs. \<exists>v. burn_value sel g = Some v \<and> v \<noteq> b" by simp
    ultimately have "fold (burn sel) gs raster c \<noteq> b" by (rule snoc.IH[rotated])
    then show ?thesis using False by (simp add: burn_not_covering)
  qed
qed

lemma label_at_marked:
  assumes "\<forall>g\<in>set gs. \<exists>v. burn_value (selector_of (BurnAttribute s)) g = Some v \<and> v \<noteq> BackgroundValue s"
  shows "(label_at (label_raster s gs img) c \<noteq> BackgroundValue s) = (\<exists>g\<in>set gs. covers g c)"
proof (cases "\<exists>g\<in>set gs. covers g c")
  case True
  then show ?thesis
    using fold_burn_covered [OF assms True] by (simp add: label_raster_def)
next
  case False
  then show ?thesis by (simp add: label_raster_def fold_burn_uncovered)
qed

lemma streaming_population_sum:
  assumes "covers_once (mask_size valid) (split ram (mask_size valid))"
  shows "population_sum (erase (label_population split ram valid labels) b)
    = length (filter (\<lambda>c. mask_at valid c \<and> label_at labels c \<noteq> b) (region_cells (mask_size valid)))"
proof -
  have "length (filter (\<lambda>c. mask_at valid c \<and> label_at labels c \<noteq> b) (concat (split ram (mask_size valid))))
    = length (filter (\<lambda>c. mask_at valid c \<and> label_at labels c \<noteq> b) (region_cells (mask_size valid)))"
  proof -
    from assms have "mset (concat (split ram (mask_size valid))) = mset (region_cells (mask_size valid))"
      by (simp add: covers_once_def)
    then have "size (filter_mset (\<lambda>c. mask_at valid c \<and> label_at labels c \<noteq> b) (mset (concat (split ram (mask_size valid)))))
      = size (filter_mset (\<lambda>c. mask_at valid c \<and> label_at labels c \<noteq> b) (mset (region_cells (mask_size valid))))"
      by simp
    then show ?thesis by (simp flip: mset_filter)
  qed
  then show ?thesis
    by (simp add: label_population_def accumulate_tiles_count population_sum_erase_count_map)
qed

subsection \<open>The accumulator\<close>

text \<open>
  C1. For every cell: where the validity mask is true, the accumulator increments the entry
  of the population map for the label value at the cell, creating it with count 1 if absent;
  where the mask is false, the map is left as it is, whatever the label. Over any sequence of
  tiles the map therefore holds, for every label, the number of valid cells carrying it (and
  no entry where that number is 0), so that a label value that only stands behind invalid
  pixels has no entry.
\<close>

theorem accumulator_counts_valid_cells:
  "(valid c \<longrightarrow>
      accumulate_cell valid label c m
        = m(label c \<mapsto> (case m (label c) of None \<Rightarrow> 1 | Some n \<Rightarrow> n + 1))) \<and>
   (\<not> valid c \<longrightarrow> accumulate_cell valid label c m = m) \<and>
   accumulate_tiles valid label tiles = count_map (valid_count valid label (concat tiles)) \<and>
   ((\<forall>c\<in>set (concat tiles). label c = v \<longrightarrow> \<not> valid c) \<longrightarrow>
      accumulate_tiles valid label tiles v = None)"
proof -
  have "accumulate_tiles valid label tiles v = None"
    if "\<forall>c\<in>set (concat tiles). label c = v \<longrightarrow> \<not> valid c"
  proof -
    from that have "filter (\<lambda>c. valid c \<and> label c = v) (concat tiles) = []"
      by (auto simp: filter_empty_conv)
    then show ?thesis
      by (simp add: accumulate_tiles_count count_map_def valid_count_def)
  qed
  then show ?thesis
    by (simp add: accumulate_cell_def accumulate_tiles_count)
qed

theorem accumulator_counts_valid_cells_witness:
  "mask_at (validity_mask example_image) (2, 0) \<and>
   label_at (label_raster FIDSettings example_geometries example_image) (2, 0) = 9 \<and>
   accumulate_cell (mask_at (validity_mask example_image))
      (label_at (label_raster FIDSettings example_geometries example_image)) (2, 0) [9 \<mapsto> 1]
     = [9 \<mapsto> 2] \<and>
   accumulate_cell (mask_at (validity_mask example_image))
      (label_at (label_raster FIDSettings example_geometries example_image)) (2, 0) Map.empty
     = [9 \<mapsto> 1] \<and>
   \<not> mask_at (validity_mask example_image) (3, 0) \<and>
   label_at (label_raster FIDSettings example_geometries example_image) (3, 0) = 4 \<and>
   accumulate_cell (mask_at (validity_mask example_image))
      (label_at (label_raster FIDSettings example_geometries example_image)) (3, 0) [9 \<mapsto> 2]
     = [9 \<mapsto> 2] \<and>
   list_all (\<lambda>c. label_at (label_raster FIDSettings example_geometries example_image) c \<noteq> 4
               \<or> \<not> mask_at (validity_mask example_image) c)
     (concat (strips 1 (5, 1))) \<and>
   accumulate_tiles (mask_at (validity_mask example_image))
      (label_at (label_raster FIDSettings example_geometries example_image)) (strips 1 (5, 1)) 4
     = None"
proof -
  let ?valid = "mask_at (validity_mask example_image)"
  let ?label = "label_at (label_raster FIDSettings example_geometries example_image)"
  have v2: "?valid (2, 0)" by code_simp
  have l2: "?label (2, 0) = 9" by code_simp
  have v3: "\<not> ?valid (3, 0)" by code_simp
  have l3: "?label (3, 0) = 4" by code_simp
  have all: "list_all (\<lambda>c. ?label c \<noteq> 4 \<or> \<not> ?valid c) (concat (strips 1 (5, 1)))"
    by code_simp
  then have h: "\<forall>c\<in>set (concat (strips 1 (5, 1))). ?label c = 4 \<longrightarrow> \<not> ?valid c"
    by (auto simp: list_all_iff)
  note t = accumulator_counts_valid_cells [of ?valid _ ?label]
  have a: "accumulate_cell ?valid ?label (2, 0) [9 \<mapsto> 1] = [9 \<mapsto> 2]"
    using t [of "(2, 0)" "[9 \<mapsto> 1]"] v2 l2 by (simp add: numeral_2_eq_2)
  have b: "accumulate_cell ?valid ?label (2, 0) Map.empty = [9 \<mapsto> 1]"
    using t [of "(2, 0)" Map.empty] v2 l2 by simp
  have c: "accumulate_cell ?valid ?label (3, 0) [9 \<mapsto> 2] = [9 \<mapsto> 2]"
    using t [of "(3, 0)" "[9 \<mapsto> 2]"] v3 by simp
  have d: "accumulate_tiles ?valid ?label (strips 1 (5, 1)) 4 = None"
    using t [of "(3, 0)" Map.empty "strips 1 (5, 1)" 4] h by blast
  show ?thesis using v2 l2 v3 l3 all a b c d by simp
qed

subsection \<open>Tiles\<close>

lemma merge_maps_commute: "merge_maps a b = merge_maps b a"
  by (rule ext) (simp add: merge_maps_def split: option.splits)

lemma merge_maps_assoc: "merge_maps (merge_maps a b) c = merge_maps a (merge_maps b c)"
  by (rule ext) (simp add: merge_maps_def split: option.splits)

lemma label_population_covers_once:
  assumes "covers_once (mask_size valid) (split ram (mask_size valid))"
  shows "label_population split ram valid labels
    = count_map (valid_count (mask_at valid) (label_at labels) (region_cells (mask_size valid)))"
  using assms by (simp add: label_population_def accumulate_tiles_count covers_once_count)

text \<open>
  C4. The population map does not depend on the tiling. Any sequence of tiles that holds
  every cell of the extent exactly once gives the map of a single pass over the extent; the
  tiles may come in any order; two partial maps accumulated over two parts that together hold
  every cell exactly once merge, by key-wise summation, to the map of the single pass; the
  merge is commutative and associative. For a streaming that covers the extent exactly once
  under two memory budgets, \<^verbatim>\<open>DoExecute\<close> returns the same result under both.
\<close>

theorem tiling_does_not_matter:
  "(covers_once sz tiles \<longrightarrow>
      accumulate_tiles valid label tiles = accumulate_tiles valid label [region_cells sz]) \<and>
   (mset tiles' = mset tiles \<longrightarrow>
      accumulate_tiles valid label tiles' = accumulate_tiles valid label tiles) \<and>
   (mset (concat A) + mset (concat B) = mset (region_cells sz) \<longrightarrow>
      merge_maps (accumulate_tiles valid label A) (accumulate_tiles valid label B)
        = accumulate_tiles valid label [region_cells sz]) \<and>
   merge_maps a b = merge_maps b a \<and>
   merge_maps (merge_maps a b) c = merge_maps a (merge_maps b c) \<and>
   (covers_once (img_size (param_in st)) (split r1 (img_size (param_in st))) \<and>
    covers_once (img_size (param_in st)) (split r2 (img_size (param_in st))) \<longrightarrow>
      DoExecute (streaming_otb split) (st\<lparr>param_ram := r1\<rparr>)
        = DoExecute (streaming_otb split) (st\<lparr>param_ram := r2\<rparr>))"
proof -
  have single: "accumulate_tiles valid label tiles = accumulate_tiles valid label [region_cells sz]"
    if "covers_once sz tiles"
    using that by (simp add: accumulate_tiles_count covers_once_count)
  have order: "accumulate_tiles valid label tiles' = accumulate_tiles valid label tiles"
    if "mset tiles' = mset tiles"
  proof -
    have "mset (concat ts) = sum_mset (image_mset mset (mset ts))" for ts :: "cell list list"
      by (induction ts) simp_all
    with that have "mset (concat tiles') = mset (concat tiles)"
      by simp
    then show ?thesis
      by (simp add: accumulate_tiles_count valid_count_mset [of "concat tiles'" "concat tiles"])
  qed
  have merge: "merge_maps (accumulate_tiles valid label A) (accumulate_tiles valid label B)
        = accumulate_tiles valid label [region_cells sz]"
    if "mset (concat A) + mset (concat B) = mset (region_cells sz)"
  proof -
    from that have "mset (concat A @ concat B) = mset (region_cells sz)" by simp
    then have "valid_count valid label (concat A @ concat B) = valid_count valid label (region_cells sz)"
      by (rule valid_count_mset)
    then have "(\<lambda>k. valid_count valid label (concat A) k + valid_count valid label (concat B) k)
        = valid_count valid label (region_cells sz)"
      by (simp add: valid_count_append [abs_def])
    then show ?thesis
      by (simp add: accumulate_tiles_count merge_count_map)
  qed
  have ram: "DoExecute (streaming_otb split) (st\<lparr>param_ram := r1\<rparr>)
        = DoExecute (streaming_otb split) (st\<lparr>param_ram := r2\<rparr>)"
    if "covers_once (img_size (param_in st)) (split r1 (img_size (param_in st)))"
      and "covers_once (img_size (param_in st)) (split r2 (img_size (param_in st)))"
  proof -
    have "label_population split r1 (validity_mask (param_in st)) labels
        = label_population split r2 (validity_mask (param_in st)) labels" for labels
      using that by (simp add: label_population_covers_once validity_mask_def)
    then show ?thesis
      by (simp add: DoExecute_def FIDStatsFilter_def ClassStatsFilter_def streaming_otb_def Let_def)
  qed
  show ?thesis
    by (intro conjI impI)
      (erule single order merge | rule merge_maps_commute merge_maps_assoc
        | (elim conjE, erule (1) ram))+
qed


theorem tiling_does_not_matter_witness:
  "covers_once (5, 1) (strips 1 (5, 1)) \<and>
   strips 1 (5, 1) = [[(0, 0), (1, 0)], [(2, 0), (3, 0)], [(4, 0)]] \<and>
   covers_once (5, 1) (strips 2 (5, 1)) \<and>
   strips 2 (5, 1) = [[(0, 0), (1, 0), (2, 0)], [(3, 0), (4, 0)]] \<and>
   accumulate_tiles (mask_at (validity_mask example_image))
       (label_at (label_raster FIDSettings example_geometries example_image)) (strips 1 (5, 1))
     = accumulate_tiles (mask_at (validity_mask example_image))
       (label_at (label_raster FIDSettings example_geometries example_image)) [region_cells (5, 1)] \<and>
   mset [[(4, 0)], [(0, 0), (1, 0)], [(2, 0), (3, 0)]] = mset (strips 1 (5, 1)) \<and>
   accumulate_tiles (mask_at (validity_mask example_image))
       (label_at (label_raster FIDSettings example_geometries example_image))
       [[(4, 0)], [(0, 0), (1, 0)], [(2, 0), (3, 0)]]
     = accumulate_tiles (mask_at (validity_mask example_image))
       (label_at (label_raster FIDSettings example_geometries example_image)) (strips 1 (5, 1)) \<and>
   mset (concat [[(2, 0), (3, 0)]]) + mset (concat [[(0, 0), (1, 0)], [(4, 0)]])
     = mset (region_cells (5, 1)) \<and>
   merge_maps
       (accumulate_tiles (mask_at (validity_mask example_image))
          (label_at (label_raster FIDSettings example_geometries example_image)) [[(2, 0), (3, 0)]])
       (accumulate_tiles (mask_at (validity_mask example_image))
          (label_at (label_raster FIDSettings example_geometries example_image))
          [[(0, 0), (1, 0)], [(4, 0)]])
     = accumulate_tiles (mask_at (validity_mask example_image))
       (label_at (label_raster FIDSettings example_geometries example_image)) [region_cells (5, 1)] \<and>
   DoExecute (streaming_otb strips) (example_parameters\<lparr>param_ram := 1\<rparr>)
     = DoExecute (streaming_otb strips) (example_parameters\<lparr>param_ram := 2\<rparr>)"
proof -
  let ?valid = "mask_at (validity_mask example_image)"
  let ?label = "label_at (label_raster FIDSettings example_geometries example_image)"
  have c1: "covers_once (5, 1) (strips 1 (5, 1))" by code_simp
  have s1: "strips 1 (5, 1) = [[(0, 0), (1, 0)], [(2, 0), (3, 0)], [(4, 0)]]" by code_simp
  have c2: "covers_once (5, 1) (strips 2 (5, 1))" by code_simp
  have s2: "strips 2 (5, 1) = [[(0, 0), (1, 0), (2, 0)], [(3, 0), (4, 0)]]" by code_simp
  have p: "mset [[(4, 0)], [(0, 0), (1, 0)], [(2, 0), (3, 0)]] = mset (strips 1 (5, 1))"
    by code_simp
  have m: "mset (concat [[(2, 0), (3, 0)]]) + mset (concat [[(0, 0), (1, 0)], [(4, 0)]])
     = mset (region_cells (5, 1))"
    by code_simp
  have sz: "img_size (param_in example_parameters) = (5, 1)"
    by (simp add: example_parameters_def example_image_def)
  note t = tiling_does_not_matter [of "(5, 1)" "strips 1 (5, 1)" ?valid ?label
      "[[(4, 0)], [(0, 0), (1, 0)], [(2, 0), (3, 0)]]" "[[(2, 0), (3, 0)]]"
      "[[(0, 0), (1, 0)], [(4, 0)]]" Map.empty Map.empty Map.empty example_parameters strips 1 2]
  show ?thesis using t c1 s1 c2 s2 p m sz by simp
qed

subsection \<open>The label rasters\<close>

text \<open>
  C5. When several geometries cover a cell, the last one in input order wins in both label
  rasters: if \<open>g\<close> covers the cell and no later geometry does, the raster of identifiers
  holds the identifier of \<open>g\<close> there and the raster of classes the class value of \<open>g\<close>,
  whatever the earlier geometries are; a valid pixel there increments the entry of exactly
  that identifier in one map and of exactly that class in the other. In the witness the later
  geometry has identifier 9 and class 3.
\<close>

theorem last_geometry_wins:
  assumes "geometries = earlier @ g # later"
    and "covers g c"
    and "\<forall>h\<in>set later. \<not> covers h c"
    and "burn_value (selector_of fieldName) g = Some cls"
  shows "label_at (label_raster FIDSettings geometries xs) c = geometry_id g \<and>
    label_at (label_raster (ClassSettings fieldName) geometries xs) c = cls \<and>
    (valid c \<longrightarrow>
       accumulate_cell valid (label_at (label_raster FIDSettings geometries xs)) c m
         = m(geometry_id g \<mapsto> (case m (geometry_id g) of None \<Rightarrow> 1 | Some n \<Rightarrow> n + 1)) \<and>
       accumulate_cell valid (label_at (label_raster (ClassSettings fieldName) geometries xs)) c m'
         = m'(cls \<mapsto> (case m' cls of None \<Rightarrow> 1 | Some n \<Rightarrow> n + 1)))"
proof -
  have "burn_value (selector_of (BurnAttribute FIDSettings)) g = Some (geometry_id g)"
    by (simp add: FIDSettings_def selector_of_def burn_value_def)
  then have "fold (burn (selector_of (BurnAttribute FIDSettings))) (earlier @ g # later)
      (\<lambda>c. BackgroundValue FIDSettings) c = geometry_id g"
    using assms(2,3) by (intro fold_burn_last)
  then have fid: "label_at (label_raster FIDSettings geometries xs) c = geometry_id g"
    by (simp add: label_raster_def assms(1) del: fold_append fold_simps)
  have "burn_value (selector_of (BurnAttribute (ClassSettings fieldName))) g = Some cls"
    using assms(4) by (simp add: ClassSettings_def)
  then have "fold (burn (selector_of (BurnAttribute (ClassSettings fieldName)))) (earlier @ g # later)
      (\<lambda>c. BackgroundValue (ClassSettings fieldName)) c = cls"
    using assms(2,3) by (intro fold_burn_last)
  then have cls: "label_at (label_raster (ClassSettings fieldName) geometries xs) c = cls"
    by (simp add: label_raster_def assms(1) del: fold_append fold_simps)
  show ?thesis
    by (simp add: fid cls accumulate_cell_def)
qed

theorem last_geometry_wins_witness:
  "example_geometries = [example_geometries ! 0] @ example_geometries ! 1 # [example_geometries ! 2] \<and>
   covers (example_geometries ! 0) (1, 0) \<and>
   covers (example_geometries ! 1) (1, 0) \<and>
   \<not> covers (example_geometries ! 2) (1, 0) \<and>
   geometry_id (example_geometries ! 1) = 9 \<and>
   burn_value (selector_of ''class'') (example_geometries ! 1) = Some 3 \<and>
   mask_at (validity_mask example_image) (1, 0) \<and>
   label_at (label_raster FIDSettings example_geometries example_image) (1, 0) = 9 \<and>
   label_at (label_raster (ClassSettings ''class'') example_geometries example_image) (1, 0) = 3 \<and>
   accumulate_cell (mask_at (validity_mask example_image))
       (label_at (label_raster FIDSettings example_geometries example_image)) (1, 0) [1 \<mapsto> 1]
     = [1 \<mapsto> 1, 9 \<mapsto> 1] \<and>
   accumulate_cell (mask_at (validity_mask example_image))
       (label_at (label_raster (ClassSettings ''class'') example_geometries example_image)) (1, 0)
       [5 \<mapsto> 1]
     = [5 \<mapsto> 1, 3 \<mapsto> 1] \<and>
   (case snd (DoExecute (streaming_otb strips) example_parameters) of
      Inl e \<Rightarrow> []
    | Inr stats \<Rightarrow> map (samplesPerVector stats) [1, 9, 4] @ map (samplesPerClass stats) [5, 3, 7])
     = [Some 1, Some 2, None, Some 1, Some 2, None]"
proof -
  have g: "example_geometries
      = [example_geometries ! 0] @ example_geometries ! 1 # [example_geometries ! 2]"
    by (simp add: example_geometries_def)
  have c0: "covers (example_geometries ! 0) (1, 0)" by code_simp
  have c1: "covers (example_geometries ! 1) (1, 0)" by code_simp
  have c2: "\<not> covers (example_geometries ! 2) (1, 0)" by code_simp
  then have l: "\<forall>h\<in>set [example_geometries ! 2]. \<not> covers h (1, 0)" by simp
  have i: "geometry_id (example_geometries ! 1) = 9" by code_simp
  have b: "burn_value (selector_of ''class'') (example_geometries ! 1) = Some 3" by code_simp
  have v: "mask_at (validity_mask example_image) (1, 0)" by code_simp
  have r: "(case snd (DoExecute (streaming_otb strips) example_parameters) of
      Inl e \<Rightarrow> []
    | Inr stats \<Rightarrow> map (samplesPerVector stats) [1, 9, 4] @ map (samplesPerClass stats) [5, 3, 7])
     = [Some 1, Some 2, None, Some 1, Some 2, None]"
    by code_simp
  note t = last_geometry_wins [OF g c1 l b, of example_image "mask_at (validity_mask example_image)"
      "[1 \<mapsto> 1]" "[5 \<mapsto> 1]"]
  show ?thesis using t g c0 c1 c2 i b v r by simp
qed

text \<open>
  C6. The specification gives a cell that no geometry covers the value 0 by default, and
  the no-data value only by exception. The application sets the background value of both
  rasterizers to \<open>intNoData\<close>; 0 is their default burn value. The fifth cell of the example
  is covered by no geometry and holds 4294967295, not 0, in both label rasters.
\<close>

theorem uncovered_cell_not_zero_counterexample:
  "\<not> covers (example_geometries ! 0) (4, 0) \<and>
   \<not> covers (example_geometries ! 1) (4, 0) \<and>
   \<not> covers (example_geometries ! 2) (4, 0) \<and>
   length example_geometries = 3 \<and>
   BackgroundValue FIDSettings = intNoData \<and>
   DefaultBurnValue FIDSettings = 0 \<and>
   BackgroundValue (ClassSettings ''class'') = intNoData \<and>
   DefaultBurnValue (ClassSettings ''class'') = 0 \<and>
   label_at (label_raster FIDSettings example_geometries example_image) (4, 0) = 4294967295 \<and>
   label_at (label_raster (ClassSettings ''class'') example_geometries example_image) (4, 0)
     = 4294967295 \<and>
   label_at (label_raster FIDSettings example_geometries example_image) (4, 0) \<noteq> 0 \<and>
   label_at (label_raster (ClassSettings ''class'') example_geometries example_image) (4, 0) \<noteq> 0"
  by code_simp

text \<open>
  C6, as amended. A cell that no geometry covers holds \<open>intNoData\<close>, the background value
  both rasterizers are set to, in the raster of identifiers and in the raster of classes;
  \<open>intNoData\<close> is not 0, which is the default burn value of both.
\<close>

theorem uncovered_cell_is_no_data:
  assumes "\<forall>g\<in>set geometries. \<not> covers g c"
  shows "label_at (label_raster FIDSettings geometries xs) c = intNoData \<and>
    label_at (label_raster (ClassSettings fieldName) geometries xs) c = intNoData \<and>
    intNoData \<noteq> 0 \<and>
    BackgroundValue FIDSettings = intNoData \<and>
    BackgroundValue (ClassSettings fieldName) = intNoData \<and>
    DefaultBurnValue FIDSettings = 0 \<and>
    DefaultBurnValue (ClassSettings fieldName) = 0"
  using assms
  by (simp add: label_raster_def fold_burn_uncovered FIDSettings_def ClassSettings_def
      intNoData_not_zero)

theorem uncovered_cell_is_no_data_witness:
  "list_all (\<lambda>g. \<not> covers g (4, 0)) example_geometries \<and>
   label_at (label_raster FIDSettings example_geometries example_image) (4, 0) = intNoData \<and>
   label_at (label_raster (ClassSettings ''class'') example_geometries example_image) (4, 0)
     = intNoData \<and>
   intNoData \<noteq> 0"
proof -
  have a: "list_all (\<lambda>g. \<not> covers g (4, 0)) example_geometries" by code_simp
  then have h: "\<forall>g\<in>set example_geometries. \<not> covers g (4, 0)"
    by (simp add: list_all_iff)
  show ?thesis
    using uncovered_cell_is_no_data [OF h, of example_image "''class''"] a by simp
qed

subsection \<open>Sums of the two maps\<close>

lemma FIDStatsFilter_streaming:
  "FIDStatsFilter (streaming_otb split) st
     = label_population split (param_ram st) (validity_mask (param_in st))
         (label_raster FIDSettings (param_vec st) (param_in st))"
  by (simp add: FIDStatsFilter_def streaming_otb_def Let_def)

lemma ClassStatsFilter_streaming:
  "ClassStatsFilter (streaming_otb split) st fieldName
     = label_population split (param_ram st) (validity_mask (param_in st))
         (label_raster (ClassSettings fieldName) (param_vec st) (param_in st))"
  by (simp add: ClassStatsFilter_def streaming_otb_def Let_def)

text \<open>
  C3. The specification equates the sums of the two maps as soon as every geometry has one
  class. One geometry whose class is 4294967295 and which covers the one usable pixel of a
  raster has its pixel counted in \<^verbatim>\<open>samplesPerVector\<close> and dropped, with the no-data
  entry, from \<^verbatim>\<open>samplesPerClass\<close>: the sums are 1 and 0.
\<close>

theorem sums_differ_counterexample:
  "selected_items collision_parameters = [0] \<and>
   choice_names collision_parameters = [''class''] \<and>
   length (param_vec collision_parameters) = 1 \<and>
   covers (param_vec collision_parameters ! 0) (0, 0) \<and>
   attribute (param_vec collision_parameters ! 0) ''class'' = Some 4294967295 \<and>
   mask_at (validity_mask (param_in collision_parameters)) (0, 0) \<and>
   snd (DoExecute (streaming_otb strips) collision_parameters)
     = Inr \<lparr>FileName = ''polygonStat.xml'', samplesPerClass = Map.empty,
            samplesPerVector = [1 \<mapsto> 1]\<rparr> \<and>
   population_sum [1 \<mapsto> 1] = 1 \<and>
   population_sum Map.empty = 0"
proof -
  let ?lib = "streaming_otb strips"
  have f: "FIDStatsFilter ?lib collision_parameters = [1 \<mapsto> 1]"
  proof (rule ext)
    fix k
    have "strips 1 (1, 1) = [[(0, 0)]]" by code_simp
    then show "FIDStatsFilter ?lib collision_parameters k = [1 \<mapsto> 1] k"
      by (simp add: FIDStatsFilter_streaming collision_parameters_def
          label_population_def validity_mask_def accumulate_tiles_def accumulate_tile_def
          accumulate_cell_def usable_def label_raster_def FIDSettings_def selector_of_def
          burn_def burn_value_def)
  qed
  have c: "ClassStatsFilter ?lib collision_parameters ''class'' = [intNoData \<mapsto> 1]"
  proof (rule ext)
    fix k
    have "strips 1 (1, 1) = [[(0, 0)]]" by code_simp
    then show "ClassStatsFilter ?lib collision_parameters ''class'' k = [intNoData \<mapsto> 1] k"
      by (simp add: ClassStatsFilter_streaming collision_parameters_def
          label_population_def validity_mask_def accumulate_tiles_def accumulate_tile_def
          accumulate_cell_def usable_def label_raster_def ClassSettings_def selector_of_def
          burn_def burn_value_def intNoData_def)
  qed
  have ef: "erase [1 \<mapsto> 1] intNoData = [1 \<mapsto> 1]"
    by (rule ext) (simp add: erase_def intNoData_def)
  have ec: "erase [intNoData \<mapsto> 1] intNoData = Map.empty"
    by (rule ext) (simp add: erase_def)
  have r: "snd (DoExecute ?lib collision_parameters)
     = Inr \<lparr>FileName = ''polygonStat.xml'', samplesPerClass = Map.empty,
            samplesPerVector = [1 \<mapsto> 1]\<rparr>"
    using f c ef ec by (simp add: DoExecute_def Let_def) (simp add: collision_parameters_def)
  have p1: "population_sum [(1 :: LabelValueType) \<mapsto> 1] = 1"
    by (simp add: population_sum_def)
  have p0: "population_sum Map.empty = 0"
    by (simp add: population_sum_def)
  have rest: "selected_items collision_parameters = [0] \<and>
   choice_names collision_parameters = [''class''] \<and>
   length (param_vec collision_parameters) = 1 \<and>
   covers (param_vec collision_parameters ! 0) (0, 0) \<and>
   attribute (param_vec collision_parameters ! 0) ''class'' = Some 4294967295 \<and>
   mask_at (validity_mask (param_in collision_parameters)) (0, 0)"
    by (simp add: collision_parameters_def validity_mask_def usable_def)
  show ?thesis using r p1 p0 rest by simp
qed

text \<open>
  C3, as amended. When every geometry has a value for the selected class field, and neither
  that value nor the identifier of any geometry is \<open>intNoData\<close>, and the streaming covers
  the extent exactly once, the sum of the counts of \<^verbatim>\<open>samplesPerVector\<close> equals the sum of
  the counts of \<^verbatim>\<open>samplesPerClass\<close>, and both equal the number of cells of the extent that
  are valid in the mask and covered by some geometry. Both accumulators read the same mask.
\<close>

theorem sums_agree_without_collision:
  assumes "selected_items st \<noteq> []"
    and "hd (selected_items st) < length (choice_names st)"
    and "fieldName = choice_names st ! hd (selected_items st)"
    and "covers_once (img_size (param_in st)) (split (param_ram st) (img_size (param_in st)))"
    and "\<forall>g\<in>set (param_vec st). geometry_id g \<noteq> intNoData \<and>
           (\<exists>v. burn_value (selector_of fieldName) g = Some v \<and> v \<noteq> intNoData)"
  shows "\<exists>tr stats. DoExecute (streaming_otb split) st = (tr, Inr stats) \<and>
    population_sum (samplesPerVector stats) = population_sum (samplesPerClass stats) \<and>
    population_sum (samplesPerVector stats)
      = length (filter (\<lambda>c. mask_at (validity_mask (param_in st)) c \<and>
                            (\<exists>g\<in>set (param_vec st). covers g c))
                  (region_cells (img_size (param_in st))))"
proof -
  let ?lib = "streaming_otb split"
  let ?valid = "validity_mask (param_in st)"
  let ?n = "length (filter (\<lambda>c. mask_at ?valid c \<and> (\<exists>g\<in>set (param_vec st). covers g c))
                  (region_cells (img_size (param_in st))))"
  have sz: "mask_size ?valid = img_size (param_in st)"
    by (simp add: validity_mask_def)
  have cov: "covers_once (mask_size ?valid) (split (param_ram st) (mask_size ?valid))"
    using assms(4) by (simp add: sz)
  have sum: "population_sum (erase (label_population split (param_ram st) ?valid
        (label_raster s (param_vec st) (param_in st))) intNoData) = ?n"
    if bg: "BackgroundValue s = intNoData"
      and marked: "\<forall>g\<in>set (param_vec st).
        \<exists>v. burn_value (selector_of (BurnAttribute s)) g = Some v \<and> v \<noteq> BackgroundValue s"
    for s
  proof -
    have "(label_at (label_raster s (param_vec st) (param_in st)) c \<noteq> intNoData)
        = (\<exists>g\<in>set (param_vec st). covers g c)" for c
      using label_at_marked [OF marked] by (simp add: bg)
    then show ?thesis
      by (simp add: streaming_population_sum
          [where split = split and ram = "param_ram st" and valid = "?valid", OF cov] sz)
  qed
  have "\<forall>g\<in>set (param_vec st).
      \<exists>v. burn_value (selector_of (BurnAttribute FIDSettings)) g = Some v \<and> v \<noteq> BackgroundValue FIDSettings"
    using assms(5) by (simp add: FIDSettings_def selector_of_def burn_value_def)
  then have fid: "population_sum (erase (FIDStatsFilter ?lib st) intNoData) = ?n"
    using sum [of FIDSettings]
    by (simp add: FIDStatsFilter_streaming) (simp add: FIDSettings_def)
  have "\<forall>g\<in>set (param_vec st).
      \<exists>v. burn_value (selector_of (BurnAttribute (ClassSettings fieldName))) g = Some v
        \<and> v \<noteq> BackgroundValue (ClassSettings fieldName)"
    using assms(5) by (simp add: ClassSettings_def)
  then have cls: "population_sum (erase (ClassStatsFilter ?lib st fieldName) intNoData) = ?n"
    using sum [of "ClassSettings fieldName"]
    by (simp add: ClassStatsFilter_streaming) (simp add: ClassSettings_def)
  show ?thesis
    using DoExecute_returns [OF assms(1,2), of ?lib] fid cls assms(3) by simp
qed


theorem sums_agree_without_collision_witness:
  "selected_items example_parameters \<noteq> [] \<and>
   hd (selected_items example_parameters) < length (choice_names example_parameters) \<and>
   choice_names example_parameters ! hd (selected_items example_parameters) = ''class'' \<and>
   covers_once (5, 1) (strips 1 (5, 1)) \<and>
   list_all (\<lambda>g. geometry_id g \<noteq> intNoData \<and>
       (case burn_value (selector_of ''class'') g of None \<Rightarrow> False | Some v \<Rightarrow> v \<noteq> intNoData))
     example_geometries \<and>
   (\<exists>tr stats. DoExecute (streaming_otb strips) example_parameters = (tr, Inr stats) \<and>
      population_sum (samplesPerVector stats) = 3 \<and>
      population_sum (samplesPerClass stats) = 3)"
proof -
  let ?lib = "streaming_otb strips"
  have a: "selected_items example_parameters \<noteq> []"
    by (simp add: example_parameters_def)
  have b: "hd (selected_items example_parameters) < length (choice_names example_parameters)"
    by (simp add: example_parameters_def)
  have f: "''class'' = choice_names example_parameters ! hd (selected_items example_parameters)"
    by (simp add: example_parameters_def)
  have img: "param_in example_parameters = example_image"
    and geo: "param_vec example_parameters = example_geometries"
    and ram: "param_ram example_parameters = 1"
    by (simp_all add: example_parameters_def)
  have sz: "img_size example_image = (5, 1)"
    by (simp add: example_image_def)
  have c: "covers_once (5, 1) (strips 1 (5, 1))" by code_simp
  have l: "list_all (\<lambda>g. geometry_id g \<noteq> intNoData \<and>
       (case burn_value (selector_of ''class'') g of None \<Rightarrow> False | Some v \<Rightarrow> v \<noteq> intNoData))
     example_geometries"
    by code_simp
  then have h: "\<forall>g\<in>set (param_vec example_parameters). geometry_id g \<noteq> intNoData \<and>
           (\<exists>v. burn_value (selector_of ''class'') g = Some v \<and> v \<noteq> intNoData)"
    by (auto simp: geo list_all_iff split: option.splits)
  have c': "covers_once (img_size (param_in example_parameters))
      (strips (param_ram example_parameters) (img_size (param_in example_parameters)))"
    using c by (simp add: img ram sz)
  have n: "length (filter (\<lambda>c. mask_at (validity_mask example_image) c \<and>
                            (\<exists>g\<in>set example_geometries. covers g c))
                  (region_cells (5, 1))) = 3"
    by code_simp
  from sums_agree_without_collision [where split = strips, OF a b f c' h]
  obtain tr stats where all: "DoExecute ?lib example_parameters = (tr, Inr stats) \<and>
    population_sum (samplesPerVector stats) = population_sum (samplesPerClass stats) \<and>
    population_sum (samplesPerVector stats)
      = length (filter (\<lambda>c. mask_at (validity_mask (param_in example_parameters)) c \<and>
                            (\<exists>g\<in>set (param_vec example_parameters). covers g c))
                  (region_cells (img_size (param_in example_parameters))))"
    by (elim exE) (rule that)
  then have "DoExecute ?lib example_parameters = (tr, Inr stats) \<and>
      population_sum (samplesPerVector stats) = 3 \<and>
      population_sum (samplesPerClass stats) = 3"
    using n by (simp add: img geo sz)
  then have "\<exists>tr stats. DoExecute ?lib example_parameters = (tr, Inr stats) \<and>
      population_sum (samplesPerVector stats) = 3 \<and>
      population_sum (samplesPerClass stats) = 3"
    by blast
  then show ?thesis using a b f c l by simp
qed

end
